theory Spec2Isabelle
  imports Main "HOL-Library.Word"
begin

section \<open>Shared runtime model: \<open>int\<close>, \<open>std::cout\<close>, process outcome\<close>

text \<open>
  The three snippets under \<open>analysis/cpp11/codeSnippets\<close> only use the type \<open>int\<close>,
  the stream \<open>std::cout\<close> and the implicit \<open>return 0\<close> of \<open>main\<close>.

  \<open>int\<close> is taken as a 32-bit two's complement integer, read with \<open>sint\<close>.
  Signed overflow is undefined behaviour in C++; the model makes it an explicit
  outcome instead of choosing a wrapped value.
\<close>

type_synonym cint = "32 word"

datatype error = SignedOverflow

definition INT_MIN :: int where
  "INT_MIN = - 2147483648"

definition INT_MAX :: int where
  "INT_MAX = 2147483647"

text \<open>The built-in \<open>a + b\<close> on \<open>int\<close>.\<close>

definition add_int :: "cint \<Rightarrow> cint \<Rightarrow> error + cint" where
  "add_int a b =
     (if INT_MIN \<le> sint a + sint b \<and> sint a + sint b \<le> INT_MAX
      then Inr (a + b) else Inl SignedOverflow)"

text \<open>
  \<open>std::cout\<close> is the text written so far. \<open>std::endl\<close> writes a newline (and
  flushes, which the text does not show).
\<close>

type_synonym ostream = string

definition newline :: char where
  "newline = CHR 0x0A"

text \<open>Decimal rendering, as \<open>operator<<(int)\<close> does with the default flags.\<close>

fun show_nat :: "nat \<Rightarrow> string" where
  "show_nat n =
     (if n < 10 then [''0123456789'' ! n]
      else show_nat (n div 10) @ [''0123456789'' ! (n mod 10)])"

declare show_nat.simps [simp del]

definition show_int :: "int \<Rightarrow> string" where
  "show_int i = (if i < 0 then CHR ''-'' # show_nat (nat (- i)) else show_nat (nat i))"

text \<open>The stream insertions the snippets use: \<open>cout << "text"\<close>, \<open>cout << i\<close>, \<open>cout << endl\<close>.\<close>

definition put_str :: "ostream \<Rightarrow> string \<Rightarrow> ostream" where
  "put_str os s = os @ s"

definition put_int :: "ostream \<Rightarrow> cint \<Rightarrow> ostream" where
  "put_int os i = os @ show_int (sint i)"

definition endl :: "ostream \<Rightarrow> ostream" where
  "endl os = os @ [newline]"

text \<open>
  What a run leaves behind: the text on standard output and either the exit code or
  the undefined behaviour that was hit.
\<close>

record outcome =
  stdout :: string
  exit_code :: "error + int"

text \<open>
  What a process is started with. Each \<open>main\<close> is declared \<open>int main()\<close>, without
  parameters, and no snippet reads \<open>std::cin\<close> or the environment.
\<close>

record environment =
  argv :: "string list"
  envp :: "string list"
  stdin :: string

section \<open>\<open>initLists.cxx\<close>\<close>

record Position =
  fX :: cint
  fY :: cint
  fZ :: cint

text \<open>\<open>Position() {fX = 0; fY = 0; fZ = 0;}\<close>\<close>

definition Position_default :: Position where
  "Position_default = \<lparr>fX = 0, fY = 0, fZ = 0\<rparr>"

text \<open>\<open>Position(int x, int y, int z) {fX = x; fY = y; fZ = z;}\<close>\<close>

definition Position_xyz :: "cint \<Rightarrow> cint \<Rightarrow> cint \<Rightarrow> Position" where
  "Position_xyz x y z = \<lparr>fX = x, fY = y, fZ = z\<rparr>"

text \<open>
  \<open>printCoordinates\<close> is a non-const member function: it receives the object and the
  stream and hands both back.
\<close>

definition printCoordinates :: "Position \<Rightarrow> ostream \<Rightarrow> Position \<times> ostream" where
  "printCoordinates this os =
     (this,
      endl (put_str (put_int (put_str (put_int (put_str (put_int (put_str os
        ''('') (fX this)) '', '') (fY this)) '', '') (fZ this)) '')''))"

text \<open>
  \<open>for(auto i : places) i.printCoordinates();\<close> walks the vector from \<open>begin()\<close> to
  \<open>end()\<close>; \<open>auto i\<close> copy-initialises \<open>i\<close> from the element, the call works on \<open>i\<close>,
  and \<open>i\<close> is destroyed (\<open>~Position(){}\<close> does nothing) at the end of the iteration.
  The index \<open>k\<close> stands for the iterator.
\<close>

function (domintros) range_for :: "nat \<Rightarrow> Position list \<Rightarrow> ostream \<Rightarrow> Position list \<times> ostream" where
  "range_for k places os =
     (if k < length places then
        (let i = places ! k;
             (i', os') = printCoordinates i os
         in range_for (Suc k) places os')
      else (places, os))"
  by pat_completeness auto
termination
  by (relation "measure (\<lambda>(k, places, os). length places - k)") auto

declare range_for.simps [simp del]

text \<open>The local variables of \<open>main\<close> and the stream when \<open>main\<close> reaches its closing brace.\<close>

record initLists_frame =
  centreOfTheUniverse :: Position
  places :: "Position list"
  cout :: ostream

definition initLists_body :: "ostream \<Rightarrow> initLists_frame" where
  "initLists_body os0 =
     (let centre = Position_xyz (- 1) (- 100) (- 1);
          (centre', os1) = printCoordinates centre os0;
          vec = [Position_xyz 1 2 3, Position_default, Position_xyz 4 5 6];
          (vec', os2) = range_for 0 vec os1
      in \<lparr>centreOfTheUniverse = centre', places = vec', cout = os2\<rparr>)"

text \<open>\<open>main\<close> has no \<open>return\<close> statement, so it returns 0.\<close>

definition main_initLists :: outcome where
  "main_initLists = \<lparr>stdout = cout (initLists_body []), exit_code = Inr 0\<rparr>"

definition run_initLists :: "environment \<Rightarrow> outcome" where
  "run_initLists env = main_initLists"

section \<open>\<open>nullptr.cxx\<close>\<close>

text \<open>
  A value of type \<open>int *\<close>. How \<open>cout << i\<close> renders a pointer is left to the
  implementation (\<open>0\<close>, \<open>0x0\<close>, \<open>(nil)\<close>, ...), so the rendering is a parameter.
\<close>

datatype int_ptr = Null | Address nat

text \<open>\<open>void printMe(int i)\<close>\<close>

definition printMe_int :: "cint \<Rightarrow> ostream \<Rightarrow> ostream" where
  "printMe_int i os = endl (put_int (put_str os ''I am an integer: '') i)"

text \<open>\<open>void printMe(int *i)\<close>\<close>

definition printMe_ptr :: "(int_ptr \<Rightarrow> string) \<Rightarrow> int_ptr \<Rightarrow> ostream \<Rightarrow> ostream" where
  "printMe_ptr show_ptr i os =
     endl (put_str (put_str os ''I am a pointer to an integer: '') (show_ptr i))"

text \<open>
  The argument expressions of the two calls in \<open>main\<close>: an integer literal and
  the literal \<open>nullptr\<close>. An integer literal has type \<open>int\<close>, an exact match for
  \<open>printMe(int)\<close>; \<open>nullptr\<close> has type \<open>std::nullptr_t\<close>, which converts to \<open>int *\<close>
  (giving the null pointer) and not to \<open>int\<close>. \<open>printMe\<close> is the overload set,
  dispatching on the argument expression.
\<close>

datatype argument = IntLiteral cint | NullptrLiteral

fun printMe :: "(int_ptr \<Rightarrow> string) \<Rightarrow> argument \<Rightarrow> ostream \<Rightarrow> ostream" where
  "printMe show_ptr (IntLiteral i) os = printMe_int i os"
| "printMe show_ptr NullptrLiteral os = printMe_ptr show_ptr Null os"

definition main_nullptr :: "(int_ptr \<Rightarrow> string) \<Rightarrow> outcome" where
  "main_nullptr show_ptr =
     (let os1 = printMe show_ptr (IntLiteral 0) [];
          os2 = printMe show_ptr NullptrLiteral os1
      in \<lparr>stdout = os2, exit_code = Inr 0\<rparr>)"

definition run_nullptr :: "(int_ptr \<Rightarrow> string) \<Rightarrow> environment \<Rightarrow> outcome" where
  "run_nullptr show_ptr env = main_nullptr show_ptr"

section \<open>\<open>variadic.cxx\<close>\<close>

text \<open>
  \<open>adder\<close> instantiated at \<open>int\<close> arguments. The one-argument call selects the first
  template (the non-variadic one is more specialised); a longer call selects the
  second, with \<open>first\<close> bound to the head and the pack \<open>args\<close> to the rest.

  \<open>__PRETTY_FUNCTION__\<close> is a compiler extension whose text depends on the compiler
  and on the instantiation; with every argument an \<open>int\<close> the instantiation is fixed
  by the size of the pack, so the text is a parameter \<open>pretty_function\<close> of that size.
\<close>

function (domintros) adder :: "(nat \<Rightarrow> string) \<Rightarrow> cint \<Rightarrow> cint list \<Rightarrow> ostream \<Rightarrow> ostream \<times> (error + cint)" where
  "adder pretty_function v [] os = (os, Inr v)"
| "adder pretty_function first (a # args) os =
     (let os1 = put_str (put_str os (pretty_function (length (a # args)))) [newline];
          (os2, r) = adder pretty_function a args os1
      in (os2, case r of Inl e \<Rightarrow> Inl e | Inr s \<Rightarrow> add_int first s))"
  by pat_completeness auto
termination
  by (relation "measure (\<lambda>(pretty_function, first, args, os). length args)") auto

text \<open>\<open>adder(1, 2, 3, 8, 7);\<close> as an expression statement: the value is dropped.\<close>

definition main_variadic :: "(nat \<Rightarrow> string) \<Rightarrow> outcome" where
  "main_variadic pretty_function =
     (case adder pretty_function 1 [2, 3, 8, 7] [] of
        (os, Inl e) \<Rightarrow> \<lparr>stdout = os, exit_code = Inl e\<rparr>
      | (os, Inr v) \<Rightarrow> \<lparr>stdout = os, exit_code = Inr 0\<rparr>)"

definition run_variadic :: "(nat \<Rightarrow> string) \<Rightarrow> environment \<Rightarrow> outcome" where
  "run_variadic pretty_function env = main_variadic pretty_function"

text \<open>
  One rendering of \<open>__PRETTY_FUNCTION__\<close>, in the style of Clang:
  \<open>T adder(T, Args...) [T = int, Args = <int, int>]\<close> for a pack of two.
\<close>

fun int_pack :: "nat \<Rightarrow> string" where
  "int_pack 0 = []"
| "int_pack (Suc 0) = ''int''"
| "int_pack (Suc (Suc k)) = ''int, '' @ int_pack (Suc k)"

definition clang_pretty_function :: "nat \<Rightarrow> string" where
  "clang_pretty_function k = ''T adder(T, Args...) [T = int, Args = <'' @ int_pack k @ ''>]''"

section \<open>The programs inside a process\<close>

text \<open>
  Any function of a C++ program can reach the arguments, the environment variables
  and \<open>std::cin\<close> of its process. To ask whether a run depends on them, the three
  programs are written out once more with the whole process as their state: what the
  process was started with, and the text written to \<open>std::cout\<close> so far. The
  renderings \<open>show_ptr\<close> and \<open>pretty_function\<close> are fixed by the library and the
  compiler the program was built with; they belong to the program, not to a run.
\<close>

record process = environment +
  written :: ostream

text \<open>A process starts with nothing written.\<close>

definition start :: "environment \<Rightarrow> process" where
  "start env = \<lparr>argv = argv env, envp = envp env, stdin = stdin env, written = []\<rparr>"

text \<open>\<open>cout << "text"\<close>, \<open>cout << i\<close> and \<open>cout << endl\<close> as steps of the process.\<close>

definition cout_str :: "process \<Rightarrow> string \<Rightarrow> process" where
  "cout_str p s = p\<lparr>written := put_str (written p) s\<rparr>"

definition cout_int :: "process \<Rightarrow> cint \<Rightarrow> process" where
  "cout_int p i = p\<lparr>written := put_int (written p) i\<rparr>"

definition cout_endl :: "process \<Rightarrow> process" where
  "cout_endl p = p\<lparr>written := endl (written p)\<rparr>"

text \<open>\<open>initLists.cxx\<close>\<close>

definition printCoordinates_proc :: "Position \<Rightarrow> process \<Rightarrow> Position \<times> process" where
  "printCoordinates_proc this p =
     (this,
      cout_endl (cout_str (cout_int (cout_str (cout_int (cout_str (cout_int (cout_str p
        ''('') (fX this)) '', '') (fY this)) '', '') (fZ this)) '')''))"

function range_for_proc :: "nat \<Rightarrow> Position list \<Rightarrow> process \<Rightarrow> Position list \<times> process" where
  "range_for_proc k vec p =
     (if k < length vec then
        (let i = vec ! k;
             (i', p') = printCoordinates_proc i p
         in range_for_proc (Suc k) vec p')
      else (vec, p))"
  by pat_completeness auto
termination
  by (relation "measure (\<lambda>(k, vec, p). length vec - k)") auto

declare range_for_proc.simps [simp del]

definition main_initLists_proc :: "process \<Rightarrow> process \<times> (error + int)" where
  "main_initLists_proc p0 =
     (let centre = Position_xyz (- 1) (- 100) (- 1);
          (centre', p1) = printCoordinates_proc centre p0;
          vec = [Position_xyz 1 2 3, Position_default, Position_xyz 4 5 6];
          (vec', p2) = range_for_proc 0 vec p1
      in (p2, Inr 0))"

text \<open>\<open>nullptr.cxx\<close>\<close>

definition printMe_int_proc :: "cint \<Rightarrow> process \<Rightarrow> process" where
  "printMe_int_proc i p = cout_endl (cout_int (cout_str p ''I am an integer: '') i)"

definition printMe_ptr_proc :: "(int_ptr \<Rightarrow> string) \<Rightarrow> int_ptr \<Rightarrow> process \<Rightarrow> process" where
  "printMe_ptr_proc show_ptr i p =
     cout_endl (cout_str (cout_str p ''I am a pointer to an integer: '') (show_ptr i))"

fun printMe_proc :: "(int_ptr \<Rightarrow> string) \<Rightarrow> argument \<Rightarrow> process \<Rightarrow> process" where
  "printMe_proc show_ptr (IntLiteral i) p = printMe_int_proc i p"
| "printMe_proc show_ptr NullptrLiteral p = printMe_ptr_proc show_ptr Null p"

definition main_nullptr_proc :: "(int_ptr \<Rightarrow> string) \<Rightarrow> process \<Rightarrow> process \<times> (error + int)" where
  "main_nullptr_proc show_ptr p0 =
     (let p1 = printMe_proc show_ptr (IntLiteral 0) p0;
          p2 = printMe_proc show_ptr NullptrLiteral p1
      in (p2, Inr 0))"

text \<open>\<open>variadic.cxx\<close>\<close>

fun adder_proc :: "(nat \<Rightarrow> string) \<Rightarrow> cint \<Rightarrow> cint list \<Rightarrow> process \<Rightarrow> process \<times> (error + cint)" where
  "adder_proc pretty_function v [] p = (p, Inr v)"
| "adder_proc pretty_function first (a # args) p =
     (let p1 = cout_str (cout_str p (pretty_function (length (a # args)))) [newline];
          (p2, r) = adder_proc pretty_function a args p1
      in (p2, case r of Inl e \<Rightarrow> Inl e | Inr s \<Rightarrow> add_int first s))"

definition main_variadic_proc :: "(nat \<Rightarrow> string) \<Rightarrow> process \<Rightarrow> process \<times> (error + int)" where
  "main_variadic_proc pretty_function p0 =
     (case adder_proc pretty_function 1 [2, 3, 8, 7] p0 of
        (p, Inl e) \<Rightarrow> (p, Inl e)
      | (p, Inr v) \<Rightarrow> (p, Inr 0))"

text \<open>What a finished process shows to the outside.\<close>

definition outcome_of :: "process \<times> (error + int) \<Rightarrow> outcome" where
  "outcome_of r = \<lparr>stdout = written (fst r), exit_code = snd r\<rparr>"

section \<open>Auxiliary facts\<close>

subsection \<open>\<open>int\<close> addition inside the range\<close>

lemma sint_add_in_range:
  fixes a b :: cint
  assumes "INT_MIN \<le> sint a + sint b" "sint a + sint b \<le> INT_MAX"
  shows "sint (a + b) = sint a + sint b"
  using assms
  by (simp add: INT_MIN_def INT_MAX_def sint_word_ariths signed_take_bit_int_eq_self)

subsection \<open>One recursive step of \<open>adder\<close>\<close>

lemma adder_step_fst:
  "fst (adder pf first (a # args) os) =
     fst (adder pf a args (os @ pf (Suc (length args)) @ [newline]))"
  by (simp add: case_prod_beta put_str_def Let_def)

lemma adder_step_snd:
  "snd (adder pf first (a # args) os) =
     (case snd (adder pf a args (os @ pf (Suc (length args)) @ [newline])) of
        Inl e \<Rightarrow> Inl e | Inr s \<Rightarrow> add_int first s)"
  by (simp add: case_prod_beta put_str_def Let_def)

text \<open>The text \<open>adder\<close> writes: one signature per recursive step, largest pack first.\<close>

lemma adder_stdout:
  "fst (adder pf first args os) =
     os @ concat (map (\<lambda>k. pf k @ [newline]) (rev [1..<Suc (length args)]))"
proof (induction args arbitrary: first os)
  case Nil
  show ?case by simp
next
  case (Cons a args)
  have "rev [1..<Suc (Suc (length args))] = Suc (length args) # rev [1..<Suc (length args)]"
    by simp
  with Cons.IH show ?case
    by (simp only: adder_step_fst list.size) simp
qed

text \<open>
  The value \<open>adder\<close> returns when no addition overflows. The additions are nested to
  the right, \<open>first + (a\<^sub>1 + (a\<^sub>2 + \<dots>))\<close>, so the sums that are formed are those of the
  trailing segments \<open>drop k\<close> of the argument list.
\<close>

lemma adder_value:
  assumes "\<forall>k\<le>length args.
             INT_MIN \<le> sum_list (map sint (drop k (first # args)))
           \<and> sum_list (map sint (drop k (first # args))) \<le> INT_MAX"
  shows "\<exists>r. snd (adder pf first args os) = Inr r
           \<and> sint r = sum_list (map sint (first # args))"
  using assms
proof (induction args arbitrary: first os)
  case Nil
  then show ?case by simp
next
  case (Cons a args)
  let ?os1 = "os @ pf (Suc (length args)) @ [newline]"
  have "\<forall>k\<le>length args.
           INT_MIN \<le> sum_list (map sint (drop k (a # args)))
         \<and> sum_list (map sint (drop k (a # args))) \<le> INT_MAX"
  proof (intro allI impI)
    fix k assume "k \<le> length args"
    then have "Suc k \<le> length (a # args)" by simp
    with Cons.prems show "INT_MIN \<le> sum_list (map sint (drop k (a # args)))
         \<and> sum_list (map sint (drop k (a # args))) \<le> INT_MAX"
      by (metis drop_Suc_Cons)
  qed
  from Cons.IH [OF this, of ?os1]
  obtain r where r: "snd (adder pf a args ?os1) = Inr r"
    and sr: "sint r = sum_list (map sint (a # args))" by blast
  from Cons.prems have whole: "INT_MIN \<le> sint first + sint r" "sint first + sint r \<le> INT_MAX"
    using sr by (auto dest: spec [of _ 0])
  have "snd (adder pf first (a # args) os) = add_int first r"
    using r by (simp only: adder_step_snd) simp
  moreover have "add_int first r = Inr (first + r)"
    using whole by (simp add: add_int_def)
  moreover have "sint (first + r) = sum_list (map sint (first # a # args))"
    using sint_add_in_range [OF whole] sr by simp
  ultimately show ?case by simp
qed

subsection \<open>The call in \<open>main\<close> of \<open>variadic.cxx\<close>\<close>

lemma adder_main_value: "snd (adder pf 1 [2, 3, 8, 7] os) = Inr 21"
  by (simp add: adder_step_snd add_int_def INT_MIN_def INT_MAX_def)

lemma main_variadic_result:
  "stdout (main_variadic pf) = fst (adder pf 1 [2, 3, 8, 7] [])
   \<and> exit_code (main_variadic pf) = Inr 0"
proof -
  obtain os' r where eq: "adder pf 1 [2, 3, 8, 7] [] = (os', r)"
    by (rule prod.exhaust)
  have r: "r = Inr 21"
    using adder_main_value [of pf "[]"] by (simp only: eq snd_conv)
  show ?thesis
    unfolding main_variadic_def eq r by simp
qed

lemma main_variadic_stdout:
  "stdout (main_variadic pf) =
     pf 4 @ [newline] @ pf 3 @ [newline] @ pf 2 @ [newline] @ pf 1 @ [newline]"
  using main_variadic_result [of pf] adder_stdout [of pf 1 "[2, 3, 8, 7]" "[]"]
  by (simp add: numeral_eq_Suc)

subsection \<open>Counting lines\<close>

lemma count_newlines_concat:
  assumes "\<forall>k. newline \<notin> set (pf k)"
  shows "count_list (concat (map (\<lambda>k. pf k @ [newline]) ks)) newline = length ks"
proof (induction ks)
  case Nil
  show ?case by simp
next
  case (Cons k ks)
  have "count_list (pf k) newline = 0"
    using assms by (simp add: count_list_0_iff)
  with Cons show ?case by simp
qed

lemma int_pack_no_newline: "newline \<notin> set (int_pack k)"
  by (induction k rule: int_pack.induct) (simp_all add: newline_def)

lemma clang_pretty_function_no_newline: "newline \<notin> set (clang_pretty_function k)"
  using int_pack_no_newline [of k] by (simp add: clang_pretty_function_def newline_def)

subsection \<open>The range-for loop\<close>

lemma range_for_places: "fst (range_for k ps os) = ps"
proof (induction k ps os rule: range_for.induct)
  case (1 k ps os)
  show ?case
  proof (cases "k < length ps")
    case True
    with 1 show ?thesis
      by (subst range_for.simps) (simp add: printCoordinates_def Let_def split: prod.splits)
  next
    case False
    then show ?thesis by (subst range_for.simps) simp
  qed
qed

subsection \<open>A program in its process writes what the program on its stream writes\<close>

lemma printCoordinates_proc_written:
  "printCoordinates_proc this p =
     (this, p\<lparr>written := snd (printCoordinates this (written p))\<rparr>)"
  by (simp add: printCoordinates_proc_def printCoordinates_def cout_str_def cout_int_def
      cout_endl_def)

lemma range_for_proc_written:
  "range_for_proc k vec p = (vec, p\<lparr>written := snd (range_for k vec (written p))\<rparr>)"
proof (induction k vec p rule: range_for_proc.induct)
  case (1 k vec p)
  show ?case
  proof (cases "k < length vec")
    case True
    let ?p1 = "p\<lparr>written := snd (printCoordinates (vec ! k) (written p))\<rparr>"
    have step: "printCoordinates_proc (vec ! k) p = (vec ! k, ?p1)"
      by (rule printCoordinates_proc_written)
    have "range_for_proc k vec p = range_for_proc (Suc k) vec ?p1"
      using True
      by (subst range_for_proc.simps) (simp add: step)
    also have "\<dots> = (vec, p\<lparr>written :=
        snd (range_for (Suc k) vec (snd (printCoordinates (vec ! k) (written p))))\<rparr>)"
      using 1 [OF True refl refl step [symmetric]] by simp
    also have "snd (range_for (Suc k) vec (snd (printCoordinates (vec ! k) (written p))))
        = snd (range_for k vec (written p))"
      using True
      by (subst (2) range_for.simps) (simp add: Let_def case_prod_beta)
    finally show ?thesis .
  next
    case False
    then show ?thesis
      by (subst range_for_proc.simps, subst range_for.simps) simp
  qed
qed

lemma main_initLists_proc_written:
  "main_initLists_proc p = (p\<lparr>written := cout (initLists_body (written p))\<rparr>, Inr 0)"
  by (simp add: main_initLists_proc_def initLists_body_def printCoordinates_proc_written
      range_for_proc_written Let_def case_prod_beta)

lemma main_nullptr_proc_written:
  "main_nullptr_proc show_ptr p =
     (p\<lparr>written := printMe show_ptr NullptrLiteral (printMe show_ptr (IntLiteral 0) (written p))\<rparr>,
      Inr 0)"
  by (simp add: main_nullptr_proc_def printMe_int_proc_def printMe_ptr_proc_def
      printMe_int_def printMe_ptr_def cout_str_def cout_int_def cout_endl_def)

lemma adder_proc_written:
  "adder_proc pf first args p =
     (p\<lparr>written := fst (adder pf first args (written p))\<rparr>,
      snd (adder pf first args (written p)))"
proof (induction args arbitrary: first p)
  case Nil
  show ?case by simp
next
  case (Cons a args)
  show ?case
    by (simp add: Cons.IH cout_str_def Let_def case_prod_beta)
qed

lemma main_variadic_proc_written:
  "main_variadic_proc pf p =
     (p\<lparr>written := fst (adder pf 1 [2, 3, 8, 7] (written p))\<rparr>, Inr 0)"
proof -
  have "adder_proc pf 1 [2, 3, 8, 7] p =
      (p\<lparr>written := fst (adder pf 1 [2, 3, 8, 7] (written p))\<rparr>, Inr 21)"
    by (simp only: adder_proc_written adder_main_value)
  then show ?thesis
    unfolding main_variadic_proc_def by simp
qed

section \<open>The claims\<close>

subsection \<open>\<open>variadic.cxx\<close>: the value of \<open>adder\<close>\<close>

text \<open>
  C1, as stated: for every non-empty list of integer arguments \<open>adder\<close> returns the sum of
  all its arguments. At \<open>adder(2147483647, 1)\<close> the single addition \<open>2147483647 + 1\<close>
  leaves the range of \<open>int\<close>: the call has undefined behaviour and returns no sum.
\<close>

theorem adder_sum_overflow_counterexample:
  "snd (adder clang_pretty_function 2147483647 [1] []) = Inl SignedOverflow
   \<and> INT_MAX < sint (2147483647 :: cint) + sint (1 :: cint)"
  by (simp add: adder_step_snd add_int_def INT_MIN_def INT_MAX_def)

text \<open>
  C1, amended: for every non-empty list of \<open>int\<close> arguments in which the sum of every
  trailing segment of the list (the sums the recursion forms, from the last argument
  backwards) lies in the range of \<open>int\<close>, \<open>adder\<close> returns the sum of all its arguments,
  consuming the pack down to the one-argument base case. In particular
  \<open>adder(1, 2, 3, 8, 7)\<close> returns 21, and \<open>main\<close> drops that value: its output is what
  \<open>adder\<close> printed and its exit code is 0.
\<close>

theorem adder_sum_in_range:
  "((\<forall>k\<le>length args.
        INT_MIN \<le> sum_list (map sint (drop k (first # args)))
      \<and> sum_list (map sint (drop k (first # args))) \<le> INT_MAX)
    \<longrightarrow> (\<exists>r. snd (adder pf first args os) = Inr r
           \<and> sint r = sum_list (map sint (first # args))))
   \<and> snd (adder pf v [] os) = Inr v
   \<and> snd (adder pf 1 [2, 3, 8, 7] os) = Inr 21
   \<and> stdout (main_variadic pf) = fst (adder pf 1 [2, 3, 8, 7] [])
   \<and> exit_code (main_variadic pf) = Inr 0"
proof (intro conjI impI)
  assume "\<forall>k\<le>length args.
        INT_MIN \<le> sum_list (map sint (drop k (first # args)))
      \<and> sum_list (map sint (drop k (first # args))) \<le> INT_MAX"
  then show "\<exists>r. snd (adder pf first args os) = Inr r
           \<and> sint r = sum_list (map sint (first # args))"
    by (rule adder_value)
next
  show "snd (adder pf v [] os) = Inr v" by simp
next
  show "snd (adder pf 1 [2, 3, 8, 7] os) = Inr 21"
    by (rule adder_main_value)
next
  show "stdout (main_variadic pf) = fst (adder pf 1 [2, 3, 8, 7] [])"
    using main_variadic_result [of pf] by (rule conjunct1)
next
  show "exit_code (main_variadic pf) = Inr 0"
    using main_variadic_result [of pf] by (rule conjunct2)
qed

text \<open>
  The amended claim at \<open>adder(2147483647, -1, 1)\<close>: the trailing sums are 1, 0 and
  2147483647, all in range, and the result is the sum, the largest \<open>int\<close>.
\<close>

theorem adder_sum_in_range_witness:
  "\<exists>r. snd (adder clang_pretty_function 2147483647 [- 1, 1] []) = Inr r \<and> sint r = 2147483647"
proof -
  have fits: "\<forall>k\<le>length [- 1, 1 :: cint].
        INT_MIN \<le> sum_list (map sint (drop k (2147483647 # [- 1, 1 :: cint])))
      \<and> sum_list (map sint (drop k (2147483647 # [- 1, 1 :: cint]))) \<le> INT_MAX"
    by (simp add: le_Suc_eq INT_MIN_def INT_MAX_def all_conj_distrib)
  from adder_sum_in_range [of "[- 1, 1]" 2147483647 clang_pretty_function "[]", THEN conjunct1, THEN mp, OF fits]
  obtain r where "snd (adder clang_pretty_function 2147483647 [- 1, 1] []) = Inr r"
    and "sint r = sum_list (map sint (2147483647 # [- 1, 1 :: cint]))"
    by blast
  then show ?thesis by simp
qed

subsection \<open>\<open>initLists.cxx\<close>: the output\<close>

text \<open>
  C2: a run of the initializer-list program writes exactly four lines to standard
  output, \<open>(-1, -100, -1)\<close>, \<open>(1, 2, 3)\<close>, \<open>(0, 0, 0)\<close> and \<open>(4, 5, 6)\<close>, in this
  order, and nothing else.
\<close>

theorem initLists_prints_four_lines:
  "stdout (run_initLists env) =
     concat (map (\<lambda>l. l @ [newline])
       [''(-1, -100, -1)'', ''(1, 2, 3)'', ''(0, 0, 0)'', ''(4, 5, 6)''])"
  unfolding run_initLists_def by code_simp

subsection \<open>\<open>variadic.cxx\<close>: the signature lines\<close>

text \<open>
  C3: a call of \<open>adder\<close> with \<open>n \<ge> 1\<close> arguments (\<open>first\<close> and a pack of \<open>n - 1\<close>) appends
  to the stream exactly \<open>n - 1\<close> signature lines, one per recursive step, for the packs
  of size \<open>n - 1\<close> down to 1; the one-argument base case prints nothing; and the call
  \<open>adder(1, 2, 3, 8, 7)\<close> in \<open>main\<close> prints exactly 4 signature lines. When no
  signature contains a newline, the number of lines on the stream is \<open>n - 1\<close>.
\<close>

theorem adder_prints_signature_lines:
  "fst (adder pf first args os) =
     os @ concat (map (\<lambda>k. pf k @ [newline]) (rev [1..<Suc (length args)]))
   \<and> length (rev [1..<Suc (length args)]) = length args
   \<and> fst (adder pf v [] os) = os
   \<and> ((\<forall>k. newline \<notin> set (pf k))
        \<longrightarrow> count_list (fst (adder pf first args [])) newline = length args)
   \<and> stdout (main_variadic pf) =
       pf 4 @ [newline] @ pf 3 @ [newline] @ pf 2 @ [newline] @ pf 1 @ [newline]"
proof (intro conjI impI)
  show "fst (adder pf first args os) =
     os @ concat (map (\<lambda>k. pf k @ [newline]) (rev [1..<Suc (length args)]))"
    by (rule adder_stdout)
next
  show "length (rev [1..<Suc (length args)]) = length args" by (simp del: upt_Suc)
next
  show "fst (adder pf v [] os) = os" by simp
next
  assume "\<forall>k. newline \<notin> set (pf k)"
  then have "count_list (concat (map (\<lambda>k. pf k @ [newline]) (rev [1..<Suc (length args)]))) newline
      = length (rev [1..<Suc (length args)])"
    by (rule count_newlines_concat)
  then show "count_list (fst (adder pf first args [])) newline = length args"
    by (simp add: adder_stdout del: upt_Suc)
next
  show "stdout (main_variadic pf) =
       pf 4 @ [newline] @ pf 3 @ [newline] @ pf 2 @ [newline] @ pf 1 @ [newline]"
    by (rule main_variadic_stdout)
qed

text \<open>
  The line count at the call of \<open>main\<close>, with the Clang-style signatures, none of
  which contains a newline: four lines.
\<close>

theorem adder_prints_signature_lines_witness:
  "count_list (fst (adder clang_pretty_function 1 [2, 3, 8, 7] [])) newline = 4"
proof -
  have "\<forall>k. newline \<notin> set (clang_pretty_function k)"
    by (simp add: clang_pretty_function_no_newline)
  with adder_prints_signature_lines [of clang_pretty_function 1 "[2, 3, 8, 7]" "[]" 0]
  have "count_list (fst (adder clang_pretty_function 1 [2, 3, 8, 7] [])) newline
      = length [2, 3, 8, 7 :: cint]"
    by blast
  then show ?thesis by simp
qed

subsection \<open>\<open>nullptr.cxx\<close>: the two calls of \<open>printMe\<close>\<close>

text \<open>
  C4: the call \<open>printMe(nullptr)\<close> runs the overload \<open>printMe(int*)\<close> on the null
  pointer. The second line of the program's output, the text after the first newline,
  begins with \<open>I am a pointer to an integer: \<close> and not with \<open>I am an integer:\<close>.
\<close>

theorem printMe_nullptr_selects_pointer_overload:
  "printMe show_ptr NullptrLiteral os = printMe_ptr show_ptr Null os
   \<and> stdout (run_nullptr show_ptr env) =
       ''I am an integer: 0'' @ [newline]
       @ ''I am a pointer to an integer: '' @ show_ptr Null @ [newline]
   \<and> take 30 (tl (dropWhile (\<lambda>c. c \<noteq> newline) (stdout (run_nullptr show_ptr env))))
       = ''I am a pointer to an integer: ''
   \<and> take 16 (tl (dropWhile (\<lambda>c. c \<noteq> newline) (stdout (run_nullptr show_ptr env))))
       \<noteq> ''I am an integer:''"
  by (simp add: run_nullptr_def main_nullptr_def printMe_int_def printMe_ptr_def
      endl_def put_str_def put_int_def show_int_def show_nat.simps newline_def)

text \<open>
  C9: the call \<open>printMe(0)\<close> runs the overload \<open>printMe(int)\<close> on the value 0, and the
  first line of the program's output is \<open>I am an integer: 0\<close>.
\<close>

theorem printMe_zero_selects_int_overload:
  "printMe show_ptr (IntLiteral 0) os = printMe_int 0 os
   \<and> printMe_int 0 os = os @ ''I am an integer: 0'' @ [newline]
   \<and> takeWhile (\<lambda>c. c \<noteq> newline) (stdout (run_nullptr show_ptr env)) = ''I am an integer: 0''"
  by (simp add: run_nullptr_def main_nullptr_def printMe_int_def printMe_ptr_def
      endl_def put_str_def put_int_def show_int_def show_nat.simps newline_def)

subsection \<open>\<open>initLists.cxx\<close>: \<open>Position\<close>\<close>

text \<open>
  C5: for all \<open>int\<close> values \<open>x\<close>, \<open>y\<close>, \<open>z\<close>, the \<open>Position\<close> constructed from \<open>{x, y, z}\<close>
  holds exactly these three values and \<open>printCoordinates\<close> writes \<open>(x, y, z)\<close> and a
  newline for it; the \<open>Position\<close> constructed from \<open>{}\<close> holds \<open>(0, 0, 0)\<close>; and the
  fields are not constrained further: every \<open>Position\<close> value \<open>p\<close> is the result of the
  three-argument constructor.
\<close>

theorem Position_holds_three_ints:
  "fX (Position_xyz x y z) = x \<and> fY (Position_xyz x y z) = y \<and> fZ (Position_xyz x y z) = z
   \<and> snd (printCoordinates (Position_xyz x y z) os) =
       os @ ''('' @ show_int (sint x) @ '', '' @ show_int (sint y) @ '', ''
          @ show_int (sint z) @ '')'' @ [newline]
   \<and> fX Position_default = 0 \<and> fY Position_default = 0 \<and> fZ Position_default = 0
   \<and> (\<exists>x' y' z'. p = Position_xyz x' y' z')"
proof -
  have "p = Position_xyz (fX p) (fY p) (fZ p)"
    by (simp add: Position_xyz_def)
  then have "\<exists>x' y' z'. p = Position_xyz x' y' z'" by blast
  then show ?thesis
    by (simp add: Position_xyz_def Position_default_def printCoordinates_def
        endl_def put_str_def put_int_def)
qed

text \<open>
  C10: \<open>printCoordinates\<close> hands the \<open>Position\<close> back unchanged; the range-for loop,
  started at any position of any vector, hands the vector back unchanged; so when
  \<open>main\<close> reaches its end \<open>places\<close> still holds the three values it was initialised
  with (and \<open>centreOfTheUniverse\<close> its own).
\<close>

theorem printing_leaves_places_unchanged:
  "fst (printCoordinates p os) = p
   \<and> fst (range_for k ps os) = ps
   \<and> places (initLists_body os0) = [Position_xyz 1 2 3, Position_default, Position_xyz 4 5 6]
   \<and> centreOfTheUniverse (initLists_body os0) = Position_xyz (- 1) (- 100) (- 1)"
proof -
  have "fst (printCoordinates q os') = q" for q os'
    by (simp add: printCoordinates_def)
  moreover have "places (initLists_body os0) =
      fst (range_for 0 [Position_xyz 1 2 3, Position_default, Position_xyz 4 5 6]
        (snd (printCoordinates (Position_xyz (- 1) (- 100) (- 1)) os0)))"
    by (simp add: initLists_body_def Let_def case_prod_beta)
  moreover have "centreOfTheUniverse (initLists_body os0) =
      fst (printCoordinates (Position_xyz (- 1) (- 100) (- 1)) os0)"
    by (simp add: initLists_body_def Let_def case_prod_beta)
  ultimately show ?thesis
    by (simp add: range_for_places)
qed

subsection \<open>All three programs\<close>

text \<open>
  C6: every run of each of the three programs ends with exit code 0; in particular
  the one outcome of the model that is not a normal return, the signed overflow of an
  addition in \<open>adder\<close>, is not reached by the call in \<open>main\<close>.
\<close>

theorem programs_exit_success:
  "exit_code (run_initLists env) = Inr 0
   \<and> exit_code (run_nullptr show_ptr env) = Inr 0
   \<and> exit_code (run_variadic pf env) = Inr 0"
  using main_variadic_result [of pf]
  by (simp add: run_initLists_def main_initLists_def run_nullptr_def main_nullptr_def
      run_variadic_def)

text \<open>
  C7: the three programs terminate. Their only recursion and their only loop are
  \<open>adder\<close> and the range-for loop, the rest is straight-line code. Every call of \<open>adder\<close>
  lies in the terminating domain of its recursion: the one-argument call returns at
  once, and a longer call recurses on a pack that is one argument shorter. Every start
  of the loop lies in the terminating domain of the loop, which is left at once at the
  end of the vector and otherwise moves one element closer to it.
\<close>

theorem programs_terminate:
  "adder_dom (pf, first, args, os)
   \<and> adder pf v [] os = (os, Inr v)
   \<and> range_for_dom (k, ps, os')
   \<and> range_for (length ps) ps os' = (ps, os')"
proof (intro conjI)
  show "adder_dom (pf, first, args, os)"
  proof (induction args arbitrary: first os)
    case Nil
    show ?case by (rule adder.domintros)
  next
    case (Cons a args)
    show ?case by (rule adder.domintros) (rule Cons.IH)
  qed
next
  show "adder pf v [] os = (os, Inr v)" by simp
next
  show "range_for_dom (k, ps, os')"
  proof (induction "length ps - k" arbitrary: k os')
    case 0
    then have "\<not> k < length ps" by simp
    then show ?case by (auto intro: range_for.domintros)
  next
    case (Suc n)
    show ?case
    proof (rule range_for.domintros)
      fix os''
      have "n = length ps - Suc k" using Suc.hyps(2) by simp
      then show "range_for_dom (Suc k, ps, os'')" by (rule Suc.hyps(1))
    qed
  qed
next
  show "range_for (length ps) ps os' = (ps, os')"
    by (subst range_for.simps) simp
qed

text \<open>
  C8: each program is deterministic. Started in any two processes, whatever their
  arguments, environment variables and standard input, the same program leaves the
  same text on standard output and the same exit code; and it takes no input: the
  standard input of the process is as it was when the program ends.
\<close>

theorem programs_deterministic:
  "outcome_of (main_initLists_proc (start env1)) = outcome_of (main_initLists_proc (start env2))
   \<and> outcome_of (main_nullptr_proc show_ptr (start env1))
       = outcome_of (main_nullptr_proc show_ptr (start env2))
   \<and> outcome_of (main_variadic_proc pf (start env1))
       = outcome_of (main_variadic_proc pf (start env2))
   \<and> stdin (fst (main_initLists_proc p)) = stdin p
   \<and> stdin (fst (main_nullptr_proc show_ptr p)) = stdin p
   \<and> stdin (fst (main_variadic_proc pf p)) = stdin p"
proof -
  have "written (start env1) = written (start env2)"
    by (simp add: start_def)
  then show ?thesis
    by (simp add: outcome_of_def main_initLists_proc_written main_nullptr_proc_written
        main_variadic_proc_written del: printMe.simps)
qed

end
